theory Spec2Isabelle
  imports Complex_Main "HOL-Library.Word"
begin

section \<open>Values exchanged with the service\<close>

text \<open>
  The payloads of \<^verbatim>\<open>update_stats\<close> are what \<^verbatim>\<open>request.get_json()\<close> decodes: \<^verbatim>\<open>None\<close>,
  booleans, unbounded integers, floats (kept as their 64-bit pattern, which no operation
  of the service reads), strings, lists, and dictionaries with string keys.  A dictionary
  keeps its insertion order, so it is an association list; Python never holds a key twice,
  which is the predicate \<open>py_wf\<close>.
\<close>

datatype pyval =
    PNone
  | PBool bool
  | PInt int
  | PFloat "64 word"
  | PStr string
  | PList "pyval list"
  | PDict "(string \<times> pyval) list"

fun py_wf :: "pyval \<Rightarrow> bool" where
  "py_wf (PList xs) = list_all py_wf xs"
| "py_wf (PDict kvs) = (distinct (map fst kvs) \<and> list_all (\<lambda>kv. py_wf (snd kv)) kvs)"
| "py_wf v = True"

text \<open>\<^verbatim>\<open>isinstance(value, int)\<close> together with the number Python compares: \<^verbatim>\<open>bool\<close> is a
  subclass of \<^verbatim>\<open>int\<close>, with \<^verbatim>\<open>False == 0\<close> and \<^verbatim>\<open>True == 1\<close>.\<close>

fun int_instance :: "pyval \<Rightarrow> int option" where
  "int_instance (PInt i) = Some i"
| "int_instance (PBool b) = Some (if b then 1 else 0)"
| "int_instance v = None"

text \<open>Truth value of an object, as \<^verbatim>\<open>if benefit_categories:\<close> takes it.\<close>

fun py_truthy :: "pyval \<Rightarrow> bool" where
  "py_truthy PNone = False"
| "py_truthy (PBool b) = b"
| "py_truthy (PInt i) = (i \<noteq> 0)"
| "py_truthy (PFloat w) = (w \<noteq> 0 \<and> w \<noteq> 0x8000000000000000)"
| "py_truthy (PStr s) = (s \<noteq> [])"
| "py_truthy (PList xs) = (xs \<noteq> [])"
| "py_truthy (PDict kvs) = (kvs \<noteq> [])"

subsection \<open>Dictionaries\<close>

text \<open>\<^verbatim>\<open>d.get(k)\<close> on the entries of a dictionary, and \<^verbatim>\<open>d[k] = v\<close>: an existing key keeps
  its place, a new key goes to the end.\<close>

fun dict_get :: "(string \<times> 'v) list \<Rightarrow> string \<Rightarrow> 'v option" where
  "dict_get [] k = None"
| "dict_get ((k', v) # rest) k = (if k' = k then Some v else dict_get rest k)"

fun dict_set :: "(string \<times> 'v) list \<Rightarrow> string \<Rightarrow> 'v \<Rightarrow> (string \<times> 'v) list" where
  "dict_set [] k v = [(k, v)]"
| "dict_set ((k', v') # rest) k v =
     (if k' = k then (k, v) # rest else (k', v') # dict_set rest k v)"

datatype exn = AttributeError

text \<open>\<^verbatim>\<open>data.get(key)\<close> on an arbitrary decoded value: only a dictionary has the method;
  a missing key gives \<^verbatim>\<open>None\<close>.\<close>

definition py_get :: "pyval \<Rightarrow> string \<Rightarrow> exn + pyval" where
  "py_get d k =
     (case d of
        PDict kvs \<Rightarrow> Inr (case dict_get kvs k of None \<Rightarrow> PNone | Some v \<Rightarrow> v)
      | _ \<Rightarrow> Inl AttributeError)"

section \<open>The stored statistics record\<close>

text \<open>\<^verbatim>\<open>Config.MOCK_LOVE_STATS\<close>.  Its three keys are always present, so it is a record;
  \<open>last_updated\<close> is the ISO-8601 text of a clock reading, which the model takes as an
  argument wherever the source calls \<^verbatim>\<open>datetime.now\<close>.\<close>

record stats =
  donation :: pyval
  benefit_categories :: "(string \<times> pyval) list"
  last_updated :: string

definition MOCK_LOVE_STATS :: "string \<Rightarrow> stats" where
  "MOCK_LOVE_STATS t0 =
     \<lparr> donation = PInt 714649,
       benefit_categories =
         [(''total_donation'', PInt 714649),
          (''visually_impaired'', PInt 488540),
          (''medical_staff'', PInt 133468),
          (''filial_piety'', PInt 3155),
          (''matsu_resident'', PInt 1160),
          (''new_resident'', PInt 1674),
          (''beach_cleanup'', PInt 3780),
          (''allpass'', PInt 78807)],
       last_updated = t0 \<rparr>"

text \<open>The key set the seed record fixes.\<close>

definition allowed_categories :: "string list" where
  "allowed_categories =
     [''total_donation'', ''visually_impaired'', ''medical_staff'', ''filial_piety'',
      ''matsu_resident'', ''new_resident'', ''beach_cleanup'', ''allpass'']"

section \<open>DataValidator\<close>

definition validate_positive_integer :: "pyval \<Rightarrow> string \<Rightarrow> bool \<times> string option" where
  "validate_positive_integer val field_name =
     (if val = PNone then (True, None)
      else
        (case int_instance val of
           None \<Rightarrow>
             (False, Some (''Invalid value for '' @ field_name @ '': must be a positive integer''))
         | Some n \<Rightarrow>
             if n < 0
             then (False, Some (''Invalid value for '' @ field_name @ '': must be a positive integer''))
             else (True, None)))"

text \<open>The loop over \<^verbatim>\<open>categories.items()\<close>; the first return leaves it.\<close>

fun validate_items :: "string list \<Rightarrow> (string \<times> pyval) list \<Rightarrow> bool \<times> string option" where
  "validate_items allowed_keys [] = (True, None)"
| "validate_items allowed_keys ((key, val) # rest) =
     (if key \<notin> set allowed_keys then (False, Some (''Unknown benefit category: '' @ key))
      else
        (case validate_positive_integer val key of
           (is_valid, error_msg) \<Rightarrow>
             if \<not> is_valid then (False, error_msg)
             else validate_items allowed_keys rest))"

text \<open>The allowed keys are read from the stored record at the time of the call.\<close>

definition validate_benefit_categories :: "stats \<Rightarrow> pyval \<Rightarrow> bool \<times> string option" where
  "validate_benefit_categories st categories =
     (if categories = PNone then (True, None)
      else
        (case categories of
           PDict items \<Rightarrow> validate_items (map fst (benefit_categories st)) items
         | _ \<Rightarrow> (False, Some ''benefit_categories must be a dictionary'')))"

section \<open>LoveStatsService.update_stats\<close>

text \<open>The loop that writes the categories: \<^verbatim>\<open>None\<close> values are skipped.\<close>

fun store_categories :: "(string \<times> pyval) list \<Rightarrow> (string \<times> pyval) list \<Rightarrow> (string \<times> pyval) list" where
  "store_categories cats [] = cats"
| "store_categories cats ((key, val) # rest) =
     store_categories (if val \<noteq> PNone then dict_set cats key val else cats) rest"

text \<open>
  The body of the \<^verbatim>\<open>try\<close> block.  It ends with a return value or with an exception, and
  in both cases with the record as the body left it.  Iterating \<^verbatim>\<open>.items()\<close> of a truthy
  value that is no dictionary raises \<^verbatim>\<open>AttributeError\<close>.
\<close>

definition update_stats_body ::
  "string \<Rightarrow> pyval \<Rightarrow> stats \<Rightarrow> (exn + bool \<times> string option) \<times> stats" where
  "update_stats_body now data st =
     (case py_get data ''donation'' of
        Inl e \<Rightarrow> (Inl e, st)
      | Inr don \<Rightarrow>
          (case validate_positive_integer don ''donation'' of
             (is_valid, error_msg) \<Rightarrow>
               if \<not> is_valid then (Inr (False, error_msg), st)
               else
                 (case py_get data ''benefit_categories'' of
                    Inl e \<Rightarrow> (Inl e, st)
                  | Inr cats \<Rightarrow>
                      (case validate_benefit_categories st cats of
                         (is_valid2, error_msg2) \<Rightarrow>
                           if \<not> is_valid2 then (Inr (False, error_msg2), st)
                           else
                             let st1 = (if don \<noteq> PNone then st\<lparr>donation := don\<rparr> else st)
                             in if py_truthy cats
                                then
                                  (case cats of
                                     PDict items \<Rightarrow>
                                       (Inr (True, None),
                                        st1\<lparr>benefit_categories :=
                                              store_categories (benefit_categories st1) items,
                                            last_updated := now\<rparr>)
                                   | _ \<Rightarrow> (Inl AttributeError, st1))
                                else (Inr (True, None), st1\<lparr>last_updated := now\<rparr>)))))"

text \<open>\<^verbatim>\<open>except Exception\<close>: any exception becomes the generic failure.\<close>

definition update_stats :: "string \<Rightarrow> pyval \<Rightarrow> stats \<Rightarrow> (bool \<times> string option) \<times> stats" where
  "update_stats now data st =
     (case update_stats_body now data st of
        (Inl e, st') \<Rightarrow> ((False, Some ''Internal server error during update''), st')
      | (Inr r, st') \<Rightarrow> (r, st'))"

text \<open>A sequence of calls, each with the clock reading it sees and its payload.\<close>

fun run_updates :: "(string \<times> pyval) list \<Rightarrow> stats \<Rightarrow> stats" where
  "run_updates [] st = st"
| "run_updates ((now, data) # calls) st = run_updates calls (snd (update_stats now data st))"

subsection \<open>Predicates the properties are stated with\<close>

text \<open>A stored number is an instance of \<^verbatim>\<open>int\<close> that Python compares as \<^verbatim>\<open>>= 0\<close>.\<close>

definition nonneg :: "pyval \<Rightarrow> bool" where
  "nonneg v = (case int_instance v of None \<Rightarrow> False | Some n \<Rightarrow> 0 \<le> n)"

definition stats_inv :: "stats \<Rightarrow> bool" where
  "stats_inv st \<longleftrightarrow>
     nonneg (donation st) \<and>
     list_all (\<lambda>kv. nonneg (snd kv)) (benefit_categories st) \<and>
     map fst (benefit_categories st) = allowed_categories"

text \<open>What a payload's category dictionary gives for a key: its value when the key is
  there with a value other than \<^verbatim>\<open>None\<close>.\<close>

definition payload_entry :: "(string \<times> pyval) list \<Rightarrow> string \<Rightarrow> pyval option" where
  "payload_entry items k =
     (case dict_get items k of None \<Rightarrow> None | Some v \<Rightarrow> if v = PNone then None else Some v)"

section \<open>LoveStatsService.get_current_stats\<close>

text \<open>
  \<^verbatim>\<open>dict.copy()\<close> is a shallow copy, so what the caller can reach through the result
  depends on which dictionaries are shared.  Here the dictionaries live in a store: an
  address is an index into the list of objects, a slot of a dictionary holds an immutable
  value or the address of another dictionary, and a new object takes the next address.
  \<^verbatim>\<open>update_stats\<close> stores only integers and booleans, which cannot be mutated, so it is
  modelled on the record above; \<open>stored_record\<close> reads that record out of a store.
\<close>

type_synonym addr = nat

datatype cell = Val pyval | Ref addr

type_synonym obj = "(string \<times> cell) list"

type_synonym heap = "obj list"

definition heap_lookup :: "heap \<Rightarrow> addr \<Rightarrow> obj option" where
  "heap_lookup h a = (if a < length h then Some (h ! a) else None)"

text \<open>The module-level \<^verbatim>\<open>Config.MOCK_LOVE_STATS\<close> is the first object created.\<close>

definition MOCK_LOVE_STATS_addr :: addr where
  "MOCK_LOVE_STATS_addr = 0"

definition heap_of :: "stats \<Rightarrow> heap" where
  "heap_of st =
     [[(''donation'', Val (donation st)),
       (''benefit_categories'', Ref 1),
       (''last_updated'', Val (PStr (last_updated st)))],
      map (\<lambda>kv. (fst kv, Val (snd kv))) (benefit_categories st)]"

fun vals_of :: "obj \<Rightarrow> (string \<times> pyval) list option" where
  "vals_of [] = Some []"
| "vals_of ((k, Val v) # rest) = map_option ((#) (k, v)) (vals_of rest)"
| "vals_of ((k, Ref a) # rest) = None"

definition stored_record :: "heap \<Rightarrow> stats option" where
  "stored_record h =
     (case heap_lookup h MOCK_LOVE_STATS_addr of
        None \<Rightarrow> None
      | Some mock \<Rightarrow>
          (case (dict_get mock ''donation'', dict_get mock ''benefit_categories'',
                 dict_get mock ''last_updated'') of
             (Some (Val d), Some (Ref b), Some (Val (PStr t))) \<Rightarrow>
               (case heap_lookup h b of
                  None \<Rightarrow> None
                | Some cats \<Rightarrow>
                    (case vals_of cats of
                       None \<Rightarrow> None
                     | Some items \<Rightarrow>
                         Some \<lparr> donation = d, benefit_categories = items, last_updated = t \<rparr>))
           | _ \<Rightarrow> None))"

text \<open>\<^verbatim>\<open>d.copy()\<close>: a new object with the same slots.  \<^verbatim>\<open>d[k] = c\<close> on the object at an
  address.  Both are undefined (\<open>None\<close>) at an address that holds no object, which a
  Python reference never is.\<close>

definition dict_copy :: "addr \<Rightarrow> heap \<Rightarrow> (addr \<times> heap) option" where
  "dict_copy a h =
     (case heap_lookup h a of None \<Rightarrow> None | Some ob \<Rightarrow> Some (length h, h @ [ob]))"

definition setitem :: "addr \<Rightarrow> string \<Rightarrow> cell \<Rightarrow> heap \<Rightarrow> heap option" where
  "setitem a k c h =
     (case heap_lookup h a of None \<Rightarrow> None | Some ob \<Rightarrow> Some (h[a := dict_set ob k c]))"

definition get_current_stats :: "string \<Rightarrow> heap \<Rightarrow> (addr \<times> heap) option" where
  "get_current_stats now h =
     (case dict_copy MOCK_LOVE_STATS_addr h of
        None \<Rightarrow> None
      | Some (stats, h1) \<Rightarrow>
          (case heap_lookup h1 stats of
             None \<Rightarrow> None
           | Some ob \<Rightarrow>
               (case dict_get ob ''last_updated'' of
                  Some c \<Rightarrow> map_option (Pair stats) (setitem stats ''updatedAt'' c h1)
                | None \<Rightarrow>
                    map_option (Pair stats) (setitem stats ''updatedAt'' (Val (PStr now)) h1))))"

section \<open>RateLimiter\<close>

subsection \<open>Clock readings and their subtraction\<close>

text \<open>
  \<^verbatim>\<open>time.time()\<close> returns a double, and \<^verbatim>\<open>current_time - req_time\<close> is the subtraction of
  doubles: the exact difference, rounded to the nearest double, a tie going to the even
  mantissa.  A reading is modelled as the real number it denotes and is an argument of
  the model.  A double with exponent \<open>e\<close> is a multiple of \<open>2 powr (e - 52)\<close>; below
  \<open>2 powr - 1022\<close> the spacing stays that of the lowest exponent.  A difference that
  rounds to \<open>2 ^ 1024\<close> or beyond is an infinity in Python; \<open>2 ^ 1024\<close> with the sign of the
  difference stands for it, since the difference is only compared with 60.
\<close>

definition round_half_even :: "real \<Rightarrow> int" where
  "round_half_even x =
     (let f = \<lfloor>x\<rfloor>; d = x - of_int f
      in if d < 1 / 2 then f else if 1 / 2 < d then f + 1 else if even f then f else f + 1)"

definition binade :: "real \<Rightarrow> int" where
  "binade x = max (- 1022) \<lfloor>log 2 \<bar>x\<bar>\<rfloor>"

definition double_round :: "real \<Rightarrow> real" where
  "double_round x =
     (if x = 0 then 0
      else
        let u = 2 powr of_int (binade x - 52);
            y = u * of_int (round_half_even (x / u))
        in if 2 ^ 1024 \<le> \<bar>y\<bar> then sgn x * 2 ^ 1024 else y)"

definition float_sub :: "real \<Rightarrow> real \<Rightarrow> real" where
  "float_sub a b = double_round (a - b)"

subsection \<open>The limiter\<close>

text \<open>\<^verbatim>\<open>request_counts\<close> maps an address to the list of clock readings of its admitted
  requests.\<close>

type_synonym request_counts = "string \<Rightarrow> real list option"

definition RATE_LIMIT_WINDOW :: real where
  "RATE_LIMIT_WINDOW = 60"

definition RATE_LIMIT_MAX :: nat where
  "RATE_LIMIT_MAX = 100"

text \<open>\<^verbatim>\<open>RateLimiter.__init__\<close>.\<close>

definition new_limiter :: request_counts where
  "new_limiter = Map.empty"

definition window :: "request_counts \<Rightarrow> string \<Rightarrow> real list" where
  "window rc ip = (case rc ip of None \<Rightarrow> [] | Some w \<Rightarrow> w)"

definition is_allowed :: "real \<Rightarrow> string \<Rightarrow> request_counts \<Rightarrow> bool \<times> request_counts" where
  "is_allowed current_time ip rc =
     (let rc1 = (if rc ip = None then rc(ip \<mapsto> []) else rc);
          kept = filter (\<lambda>req_time. float_sub current_time req_time < RATE_LIMIT_WINDOW)
                   (window rc1 ip);
          rc2 = rc1(ip \<mapsto> kept)
      in if length kept \<ge> RATE_LIMIT_MAX then (False, rc2)
         else (True, rc2(ip \<mapsto> kept @ [current_time])))"

text \<open>A sequence of requests, each with its clock reading and its address; the answers
  in order, and the limiter afterwards.\<close>

fun serve :: "(real \<times> string) list \<Rightarrow> request_counts \<Rightarrow> bool list \<times> request_counts" where
  "serve [] rc = ([], rc)"
| "serve ((t, ip) # reqs) rc =
     (case is_allowed t ip rc of
        (ok, rc') \<Rightarrow> (case serve reqs rc' of (oks, rc'') \<Rightarrow> (ok # oks, rc'')))"






section \<open>Facts about the validators and the update\<close>

lemma vpi_valid_iff:
  "fst (validate_positive_integer v f) \<longleftrightarrow> v = PNone \<or> nonneg v"
  by (cases v) (auto simp: validate_positive_integer_def nonneg_def)

lemma vpi_invalid_msg:
  "\<not> fst (validate_positive_integer v f) \<Longrightarrow>
   validate_positive_integer v f =
     (False, Some (''Invalid value for '' @ f @ '': must be a positive integer''))"
  by (auto simp: validate_positive_integer_def split: option.splits if_splits)

lemma vpi_valid_result:
  "fst (validate_positive_integer v f) \<Longrightarrow> validate_positive_integer v f = (True, None)"
  by (auto simp: validate_positive_integer_def split: option.splits if_splits)

lemma validate_items_Cons:
  "validate_items allowed ((k, v) # rest) =
     (if k \<notin> set allowed then (False, Some (''Unknown benefit category: '' @ k))
      else if \<not> fst (validate_positive_integer v k)
      then (False, Some (''Invalid value for '' @ k @ '': must be a positive integer''))
      else validate_items allowed rest)"
  using vpi_invalid_msg[of v k] by (auto split: prod.splits)

lemma validate_items_valid_iff:
  "fst (validate_items allowed items) \<longleftrightarrow>
   (\<forall>(k, v) \<in> set items. k \<in> set allowed \<and> (v = PNone \<or> nonneg v))"
proof (induction items)
  case Nil
  show ?case by simp
next
  case (Cons kv items)
  obtain k v where kv: "kv = (k, v)" by (cases kv)
  show ?case
    unfolding kv validate_items_Cons using Cons.IH by (simp add: vpi_valid_iff)
qed

lemma validate_items_valid_result:
  "fst (validate_items allowed items) \<Longrightarrow> validate_items allowed items = (True, None)"
  by (induction allowed items rule: validate_items.induct)
     (auto split: prod.splits if_splits)

lemma validate_items_invalid_result:
  "\<not> fst (validate_items allowed items) \<Longrightarrow> \<exists>msg. validate_items allowed items = (False, Some msg)"
proof (induction allowed items rule: validate_items.induct)
  case (1 allowed_keys)
  then show ?case by simp
next
  case (2 allowed_keys key val rest)
  show ?case
  proof (cases "key \<in> set allowed_keys")
    case False
    then show ?thesis by simp
  next
    case True
    show ?thesis
    proof (cases "fst (validate_positive_integer val key)")
      case False
      from vpi_invalid_msg[OF False] True show ?thesis by simp
    next
      case v: True
      from vpi_valid_result[OF v] True 2 show ?thesis by simp
    qed
  qed
qed

lemma vbc_valid_cases:
  "fst (validate_benefit_categories st cats) \<Longrightarrow>
   cats = PNone \<or> (\<exists>items. cats = PDict items \<and> fst (validate_items (map fst (benefit_categories st)) items))"
  by (cases cats) (auto simp: validate_benefit_categories_def)

lemma vbc_valid_result:
  "fst (validate_benefit_categories st cats) \<Longrightarrow> validate_benefit_categories st cats = (True, None)"
  by (cases cats) (auto simp: validate_benefit_categories_def validate_items_valid_result)

lemma vbc_invalid_result:
  "\<not> fst (validate_benefit_categories st cats) \<Longrightarrow>
   \<exists>msg. validate_benefit_categories st cats = (False, Some msg)"
  by (cases cats) (auto simp: validate_benefit_categories_def validate_items_invalid_result)

lemma update_stats_invalid_donation:
  assumes "py_get data ''donation'' = Inr don"
    and "\<not> fst (validate_positive_integer don ''donation'')"
  shows "update_stats now data st = (validate_positive_integer don ''donation'', st)"
  using assms vpi_invalid_msg[OF assms(2)]
  by (simp add: update_stats_def update_stats_body_def)

lemma update_stats_invalid_categories:
  assumes "py_get data ''donation'' = Inr don"
    and "py_get data ''benefit_categories'' = Inr cats"
    and "fst (validate_positive_integer don ''donation'')"
    and "\<not> fst (validate_benefit_categories st cats)"
  shows "update_stats now data st = (validate_benefit_categories st cats, st)"
  using assms vpi_valid_result[OF assms(3)] vbc_invalid_result[OF assms(4)]
  by (auto simp add: update_stats_def update_stats_body_def)

lemma update_stats_valid:
  assumes "py_get data ''donation'' = Inr don"
    and "py_get data ''benefit_categories'' = Inr cats"
    and "fst (validate_positive_integer don ''donation'')"
    and "fst (validate_benefit_categories st cats)"
  shows "update_stats now data st =
     ((True, None),
      \<lparr> donation = (if don = PNone then donation st else don),
        benefit_categories =
          (case cats of PDict items \<Rightarrow> store_categories (benefit_categories st) items
                      | _ \<Rightarrow> benefit_categories st),
        last_updated = now \<rparr>)"
  using assms vpi_valid_result[OF assms(3)] vbc_valid_result[OF assms(4)] vbc_valid_cases[OF assms(4)]
  by (cases st) (auto simp add: update_stats_def update_stats_body_def Let_def)

lemma py_get_cases:
  "(\<exists>kvs. data = PDict kvs \<and> py_get data k = Inr (case dict_get kvs k of None \<Rightarrow> PNone | Some v \<Rightarrow> v))
   \<or> ((\<forall>kvs. data \<noteq> PDict kvs) \<and> py_get data k = Inl AttributeError)"
  by (cases data) (auto simp: py_get_def)

lemma update_stats_not_dict:
  "\<forall>kvs. data \<noteq> PDict kvs \<Longrightarrow>
   update_stats now data st = ((False, Some ''Internal server error during update''), st)"
  by (cases data) (auto simp: update_stats_def update_stats_body_def py_get_def)

lemma dict_set_keys:
  "k \<in> set (map fst cats) \<Longrightarrow> map fst (dict_set cats k v) = map fst cats"
  by (induction cats) force+

lemma dict_get_dict_set:
  "dict_get (dict_set cats k v) k' = (if k' = k then Some v else dict_get cats k')"
  by (induction cats) auto

lemma dict_set_values:
  "list_all (\<lambda>kv. P (snd kv)) cats \<Longrightarrow> P v \<Longrightarrow> list_all (\<lambda>kv. P (snd kv)) (dict_set cats k v)"
  by (induction cats) auto

lemma store_categories_keys:
  "\<forall>(k, v) \<in> set items. k \<in> set (map fst cats) \<Longrightarrow>
   map fst (store_categories cats items) = map fst cats"
proof (induction items arbitrary: cats)
  case Nil
  show ?case by simp
next
  case (Cons kv items)
  obtain k v where kv: "kv = (k, v)" by (cases kv)
  from Cons.prems kv have k: "k \<in> set (map fst cats)" by simp
  let ?c = "if v \<noteq> PNone then dict_set cats k v else cats"
  have keys: "map fst ?c = map fst cats" using k by (simp add: dict_set_keys)
  from Cons.prems have "\<forall>(k, v) \<in> set items. k \<in> set (map fst ?c)"
    unfolding keys by simp
  from Cons.IH[OF this] keys show ?case by (simp add: kv)
qed

lemma store_categories_values:
  "list_all (\<lambda>kv. P (snd kv)) cats \<Longrightarrow> \<forall>(k, v) \<in> set items. v = PNone \<or> P v \<Longrightarrow>
   list_all (\<lambda>kv. P (snd kv)) (store_categories cats items)"
proof (induction items arbitrary: cats)
  case Nil
  then show ?case by simp
next
  case (Cons kv items)
  obtain k v where kv: "kv = (k, v)" by (cases kv)
  let ?c = "if v \<noteq> PNone then dict_set cats k v else cats"
  have "list_all (\<lambda>kv. P (snd kv)) ?c"
    using Cons.prems kv by (auto intro: dict_set_values)
  moreover from Cons.prems have "\<forall>(k, v) \<in> set items. v = PNone \<or> P v" by simp
  ultimately show ?case using Cons.IH[of ?c] by (simp add: kv)
qed

lemma dict_get_None_iff: "dict_get items k = None \<longleftrightarrow> k \<notin> set (map fst items)"
  by (induction items) force+

lemma store_categories_get:
  "distinct (map fst items) \<Longrightarrow>
   dict_get (store_categories cats items) k =
     (case payload_entry items k of None \<Rightarrow> dict_get cats k | Some v \<Rightarrow> Some v)"
proof (induction items arbitrary: cats)
  case Nil
  show ?case by (simp add: payload_entry_def)
next
  case (Cons kv items)
  obtain k' v' where kv: "kv = (k', v')" by (cases kv)
  from Cons.prems kv have d: "distinct (map fst items)" and n: "k' \<notin> set (map fst items)"
    by simp_all
  from n have g: "dict_get items k' = None" by (simp add: dict_get_None_iff)
  show ?case
    using Cons.IH[OF d] g
    by (auto simp: kv payload_entry_def dict_get_dict_set split: option.splits)
qed

lemma update_stats_cases:
  "(\<exists>msg. update_stats now data st = ((False, Some msg), st)) \<or>
   (\<exists>kvs don cats. data = PDict kvs \<and>
      py_get data ''donation'' = Inr don \<and> py_get data ''benefit_categories'' = Inr cats \<and>
      fst (validate_positive_integer don ''donation'') \<and>
      fst (validate_benefit_categories st cats))"
proof (cases data)
  case (PDict kvs)
  obtain don cats where g: "py_get data ''donation'' = Inr don"
     "py_get data ''benefit_categories'' = Inr cats"
    by (simp add: PDict py_get_def)
  show ?thesis
  proof (cases "fst (validate_positive_integer don ''donation'')")
    case False
    from update_stats_invalid_donation[OF g(1) False] vpi_invalid_msg[OF False]
    show ?thesis by simp
  next
    case d: True
    show ?thesis
    proof (cases "fst (validate_benefit_categories st cats)")
      case False
      from update_stats_invalid_categories[OF g d False] vbc_invalid_result[OF False]
      show ?thesis by auto
    next
      case True
      with d g PDict show ?thesis by blast
    qed
  qed
qed (simp_all add: update_stats_not_dict)

lemma update_stats_inv:
  assumes "stats_inv st"
  shows "stats_inv (snd (update_stats now data st))"
proof -
  consider (fail) msg where "update_stats now data st = ((False, Some msg), st)"
    | (ok) kvs don cats where "data = PDict kvs"
      "py_get data ''donation'' = Inr don" "py_get data ''benefit_categories'' = Inr cats"
      "fst (validate_positive_integer don ''donation'')"
      "fst (validate_benefit_categories st cats)"
    using update_stats_cases[of now data st] by blast
  then show ?thesis
  proof cases
    case fail
    with assms show ?thesis by simp
  next
    case ok
    note u = update_stats_valid[OF ok(2-5), of now]
    from ok(4) have don: "don = PNone \<or> nonneg don" by (simp add: vpi_valid_iff)
    have cats: "list_all (\<lambda>kv. nonneg (snd kv)) (case cats of PDict items \<Rightarrow> store_categories (benefit_categories st) items | _ \<Rightarrow> benefit_categories st)
      \<and> map fst (case cats of PDict items \<Rightarrow> store_categories (benefit_categories st) items | _ \<Rightarrow> benefit_categories st) = map fst (benefit_categories st)"
    proof (cases "\<exists>items. cats = PDict items")
      case False
      then show ?thesis using assms by (cases cats) (auto simp: stats_inv_def)
    next
      case True
      then obtain items where c: "cats = PDict items" by blast
      with vbc_valid_cases[OF ok(5)]
      have "fst (validate_items (map fst (benefit_categories st)) items)" by simp
      then have v: "\<forall>(k, v) \<in> set items. k \<in> set (map fst (benefit_categories st)) \<and> (v = PNone \<or> nonneg v)"
        by (simp add: validate_items_valid_iff)
      then have v1: "\<forall>(k, v) \<in> set items. k \<in> set (map fst (benefit_categories st))"
        and v2: "\<forall>(k, v) \<in> set items. v = PNone \<or> nonneg v" by auto
      from assms have "list_all (\<lambda>kv. nonneg (snd kv)) (benefit_categories st)"
        by (simp add: stats_inv_def)
      from store_categories_values[of nonneg, OF this v2] store_categories_keys[OF v1]
      show ?thesis by (simp add: c)
    qed
    show ?thesis
      using assms don cats unfolding u stats_inv_def by auto
  qed
qed

lemma MOCK_inv: "stats_inv (MOCK_LOVE_STATS t0)"
  by (simp add: stats_inv_def MOCK_LOVE_STATS_def allowed_categories_def nonneg_def)

lemma run_updates_inv: "stats_inv st \<Longrightarrow> stats_inv (run_updates calls st)"
  by (induction calls st rule: run_updates.induct) (simp_all add: update_stats_inv)

lemma dict_get_mem: "k \<in> set (map fst kvs) \<Longrightarrow> \<exists>v. dict_get kvs k = Some v"
  by (induction kvs) force+

lemma validate_items_first_failure:
  assumes "list_all (\<lambda>kv. fst kv \<in> set allowed \<and> fst (validate_positive_integer (snd kv) (fst kv))) ok"
  shows "validate_items allowed (ok @ rest) = validate_items allowed rest"
  using assms
proof (induction ok)
  case Nil
  show ?case by simp
next
  case (Cons kv ok)
  obtain k v where kv: "kv = (k, v)" by (cases kv)
  from Cons show ?case by (simp add: kv validate_items_Cons del: validate_items.simps)
qed

lemma reachable_keys:
  "map fst (benefit_categories (run_updates calls (MOCK_LOVE_STATS t0))) = allowed_categories"
  using run_updates_inv[OF MOCK_inv, of calls t0] by (simp add: stats_inv_def)

section \<open>Properties of the validators and of \<^verbatim>\<open>update_stats\<close>\<close>

text \<open>
  Claim C1.  When the payload is a dictionary and the check of its \<^verbatim>\<open>donation\<close> field or
  of its \<^verbatim>\<open>benefit_categories\<close> field fails, \<^verbatim>\<open>update_stats\<close> returns \<open>(False, message)\<close>,
  the message being that of the first check that failed, and the stored record
  (\<open>donation\<close>, every category and \<open>last_updated\<close>) is the one before the call.
\<close>

theorem update_stats_rejects_without_mutation:
  assumes "py_get data ''donation'' = Inr don"
    and "py_get data ''benefit_categories'' = Inr cats"
    and "\<not> fst (validate_positive_integer don ''donation'') \<or>
         \<not> fst (validate_benefit_categories st cats)"
  shows "\<exists>msg. update_stats now data st = ((False, Some msg), st) \<and>
           (False, Some msg) =
             (if \<not> fst (validate_positive_integer don ''donation'')
              then validate_positive_integer don ''donation''
              else validate_benefit_categories st cats)"
proof (cases "fst (validate_positive_integer don ''donation'')")
  case False
  from update_stats_invalid_donation[OF assms(1) False] vpi_invalid_msg[OF False] False
  show ?thesis by simp
next
  case True
  with assms(3) have c: "\<not> fst (validate_benefit_categories st cats)" by simp
  from vbc_invalid_result[OF c] obtain msg where
    m: "validate_benefit_categories st cats = (False, Some msg)" by blast
  from update_stats_invalid_categories[OF assms(1,2) True c] m True
  show ?thesis by simp
qed

text \<open>The statement at concrete inputs.\<close>

theorem update_stats_rejects_without_mutation_witness:
  "update_stats ''2026-01-02T00:00:00+00:00'' (PDict [(''donation'', PInt (- 1))])
      (MOCK_LOVE_STATS ''2026-01-01T00:00:00+00:00'') =
     ((False, Some ''Invalid value for donation: must be a positive integer''),
      MOCK_LOVE_STATS ''2026-01-01T00:00:00+00:00'') \<and>
   update_stats ''2026-01-02T00:00:00+00:00''
      (PDict [(''benefit_categories'', PDict [(''unknown_key'', PInt 5)])])
      (MOCK_LOVE_STATS ''2026-01-01T00:00:00+00:00'') =
     ((False, Some ''Unknown benefit category: unknown_key''),
      MOCK_LOVE_STATS ''2026-01-01T00:00:00+00:00'')"
proof -
  let ?st = "MOCK_LOVE_STATS ''2026-01-01T00:00:00+00:00''"
  let ?d1 = "PDict [(''donation'', PInt (- 1))]"
  let ?d2 = "PDict [(''benefit_categories'', PDict [(''unknown_key'', PInt 5)])]"
  have a1: "py_get ?d1 ''donation'' = Inr (PInt (- 1))"
    and a2: "py_get ?d1 ''benefit_categories'' = Inr PNone"
    and b1: "py_get ?d2 ''donation'' = Inr PNone"
    and b2: "py_get ?d2 ''benefit_categories'' = Inr (PDict [(''unknown_key'', PInt 5)])"
    by (simp_all add: py_get_def)
  have v1: "validate_positive_integer (PInt (- 1)) ''donation'' =
      (False, Some ''Invalid value for donation: must be a positive integer'')"
    by (simp add: validate_positive_integer_def)
  have v2: "validate_positive_integer PNone ''donation'' = (True, None)"
    by (simp add: validate_positive_integer_def)
  have v3: "validate_benefit_categories ?st (PDict [(''unknown_key'', PInt 5)]) =
      (False, Some ''Unknown benefit category: unknown_key'')"
    by (simp add: validate_benefit_categories_def MOCK_LOVE_STATS_def)
  from update_stats_rejects_without_mutation[OF a1 a2, of ?st "''2026-01-02T00:00:00+00:00''"]
  have r1: "update_stats ''2026-01-02T00:00:00+00:00'' ?d1 ?st =
     ((False, Some ''Invalid value for donation: must be a positive integer''), ?st)"
    unfolding v1 by auto
  from update_stats_rejects_without_mutation[OF b1 b2, of ?st "''2026-01-02T00:00:00+00:00''"]
  have r2: "update_stats ''2026-01-02T00:00:00+00:00'' ?d2 ?st =
     ((False, Some ''Unknown benefit category: unknown_key''), ?st)"
    unfolding v2 v3 by auto
  from r1 r2 show ?thesis by blast
qed

text \<open>
  Claim C6.  For a payload that passes both checks, \<^verbatim>\<open>update_stats\<close> succeeds;
  \<open>donation\<close> is overwritten exactly when the payload gives a value other than \<^verbatim>\<open>None\<close>
  for it; a category is overwritten exactly when the payload's category dictionary gives
  it a value other than \<^verbatim>\<open>None\<close>, and every other category keeps its value (the keys
  and their order stay as they were); \<open>last_updated\<close> becomes the clock reading of the call.
\<close>

theorem update_stats_applies_payload:
  assumes "py_wf data"
    and "py_get data ''donation'' = Inr don"
    and "py_get data ''benefit_categories'' = Inr cats"
    and "fst (validate_positive_integer don ''donation'')"
    and "fst (validate_benefit_categories st cats)"
  shows "fst (update_stats now data st) = (True, None) \<and>
         donation (snd (update_stats now data st)) = (if don = PNone then donation st else don) \<and>
         map fst (benefit_categories (snd (update_stats now data st))) =
           map fst (benefit_categories st) \<and>
         (\<forall>k. dict_get (benefit_categories (snd (update_stats now data st))) k =
           (case cats of
              PDict items \<Rightarrow>
                (case payload_entry items k of
                   None \<Rightarrow> dict_get (benefit_categories st) k
                 | Some v \<Rightarrow> Some v)
            | _ \<Rightarrow> dict_get (benefit_categories st) k)) \<and>
         last_updated (snd (update_stats now data st)) = now"
proof -
  note u = update_stats_valid[OF assms(2-5), of now]
  show ?thesis
  proof (cases "\<exists>items. cats = PDict items")
    case False
    then show ?thesis unfolding u by (cases cats) auto
  next
    case True
    then obtain items where c: "cats = PDict items" by blast
    from assms(2,3) obtain kvs where d: "data = PDict kvs"
      by (cases data) (auto simp: py_get_def)
    from assms(3) c d have g: "dict_get kvs ''benefit_categories'' = Some (PDict items)"
      by (auto simp: py_get_def split: option.splits)
    have mem: "dict_get kvs k = Some v \<Longrightarrow> (k, v) \<in> set kvs" for k v and kvs :: "(string \<times> pyval) list"
      by (induction kvs) (auto split: if_splits)
    from assms(1) d have "\<forall>kv \<in> set kvs. py_wf (snd kv)"
      by (simp add: list_all_iff)
    with mem[OF g] have "py_wf (snd (''benefit_categories'', PDict items))"
      by blast
    then have "py_wf (PDict items)" by (simp only: snd_conv)
    then have dist: "distinct (map fst items)" by simp
    from vbc_valid_cases[OF assms(5)] c
    have "fst (validate_items (map fst (benefit_categories st)) items)" by simp
    then have v1: "\<forall>(k, v) \<in> set items. k \<in> set (map fst (benefit_categories st))"
      by (auto simp: validate_items_valid_iff)
    show ?thesis
      unfolding u c
      using store_categories_keys[OF v1] store_categories_get[OF dist, of "benefit_categories st"]
      by simp
  qed
qed

text \<open>The statement at concrete inputs.\<close>

theorem update_stats_applies_payload_witness:
  "fst (update_stats ''2026-01-02T00:00:00+00:00''
          (PDict [(''donation'', PInt 800000),
                  (''benefit_categories'', PDict [(''medical_staff'', PInt 140000), (''allpass'', PNone)])])
          (MOCK_LOVE_STATS ''2026-01-01T00:00:00+00:00'')) = (True, None) \<and>
   donation (snd (update_stats ''2026-01-02T00:00:00+00:00''
          (PDict [(''donation'', PInt 800000),
                  (''benefit_categories'', PDict [(''medical_staff'', PInt 140000), (''allpass'', PNone)])])
          (MOCK_LOVE_STATS ''2026-01-01T00:00:00+00:00''))) = PInt 800000 \<and>
   dict_get (benefit_categories (snd (update_stats ''2026-01-02T00:00:00+00:00''
          (PDict [(''donation'', PInt 800000),
                  (''benefit_categories'', PDict [(''medical_staff'', PInt 140000), (''allpass'', PNone)])])
          (MOCK_LOVE_STATS ''2026-01-01T00:00:00+00:00'')))) ''medical_staff'' = Some (PInt 140000) \<and>
   dict_get (benefit_categories (snd (update_stats ''2026-01-02T00:00:00+00:00''
          (PDict [(''donation'', PInt 800000),
                  (''benefit_categories'', PDict [(''medical_staff'', PInt 140000), (''allpass'', PNone)])])
          (MOCK_LOVE_STATS ''2026-01-01T00:00:00+00:00'')))) ''allpass'' = Some (PInt 78807) \<and>
   last_updated (snd (update_stats ''2026-01-02T00:00:00+00:00''
          (PDict [(''donation'', PInt 800000),
                  (''benefit_categories'', PDict [(''medical_staff'', PInt 140000), (''allpass'', PNone)])])
          (MOCK_LOVE_STATS ''2026-01-01T00:00:00+00:00''))) = ''2026-01-02T00:00:00+00:00''"
proof -
  let ?st = "MOCK_LOVE_STATS ''2026-01-01T00:00:00+00:00''"
  let ?cats = "PDict [(''medical_staff'', PInt 140000), (''allpass'', PNone)]"
  let ?d = "PDict [(''donation'', PInt 800000), (''benefit_categories'', ?cats)]"
  have w: "py_wf ?d" by simp
  have a1: "py_get ?d ''donation'' = Inr (PInt 800000)"
    and a2: "py_get ?d ''benefit_categories'' = Inr ?cats"
    by (simp_all add: py_get_def)
  have v1: "fst (validate_positive_integer (PInt 800000) ''donation'')"
    by (simp add: validate_positive_integer_def)
  have v2: "fst (validate_benefit_categories ?st ?cats)"
    by (simp add: validate_benefit_categories_def validate_positive_integer_def MOCK_LOVE_STATS_def)
  note t = update_stats_applies_payload[OF w a1 a2 v1 v2, of "''2026-01-02T00:00:00+00:00''"]
  have g: "dict_get (benefit_categories ?st) ''allpass'' = Some (PInt 78807)"
    by (simp add: MOCK_LOVE_STATS_def)
  from t g show ?thesis by (simp add: payload_entry_def)
qed

text \<open>
  Claim C9.  For a dictionary payload with neither a \<^verbatim>\<open>donation\<close> nor a
  \<^verbatim>\<open>benefit_categories\<close> key, such as the empty one, \<^verbatim>\<open>update_stats\<close> returns
  \<open>(True, None)\<close> and changes \<open>last_updated\<close> to the clock reading, and nothing else.
\<close>

theorem update_stats_no_fields:
  assumes "dict_get kvs ''donation'' = None"
    and "dict_get kvs ''benefit_categories'' = None"
  shows "update_stats now (PDict kvs) st = ((True, None), st\<lparr>last_updated := now\<rparr>)"
proof -
  from assms have g: "py_get (PDict kvs) ''donation'' = Inr PNone"
    "py_get (PDict kvs) ''benefit_categories'' = Inr PNone"
    by (simp_all add: py_get_def)
  have v: "fst (validate_positive_integer PNone ''donation'')"
    "fst (validate_benefit_categories st PNone)"
    by (simp_all add: validate_positive_integer_def validate_benefit_categories_def)
  from update_stats_valid[OF g v, of now] show ?thesis by simp
qed

text \<open>The statement at concrete inputs.\<close>

theorem update_stats_no_fields_witness:
  "update_stats ''2026-01-02T00:00:00+00:00'' (PDict [])
      (MOCK_LOVE_STATS ''2026-01-01T00:00:00+00:00'') =
     ((True, None), MOCK_LOVE_STATS ''2026-01-02T00:00:00+00:00'') \<and>
   update_stats ''2026-01-02T00:00:00+00:00'' (PDict [(''note'', PStr ''hello'')])
      (MOCK_LOVE_STATS ''2026-01-01T00:00:00+00:00'') =
     ((True, None), MOCK_LOVE_STATS ''2026-01-02T00:00:00+00:00'')"
proof -
  have a: "dict_get ([] :: (string \<times> pyval) list) ''donation'' = None"
    "dict_get ([] :: (string \<times> pyval) list) ''benefit_categories'' = None"
    "dict_get [(''note'', PStr ''hello'')] ''donation'' = None"
    "dict_get [(''note'', PStr ''hello'')] ''benefit_categories'' = None"
    by simp_all
  from update_stats_no_fields[OF a(1,2)] update_stats_no_fields[OF a(3,4)]
  show ?thesis by (simp add: MOCK_LOVE_STATS_def)
qed

text \<open>
  Claim C10.  \<^verbatim>\<open>validate_positive_integer\<close> accepts \<^verbatim>\<open>True\<close>, \<^verbatim>\<open>False\<close> and \<open>0\<close>;
  \<^verbatim>\<open>update_stats\<close> with a boolean \<^verbatim>\<open>donation\<close> succeeds and stores the boolean, and so it
  does with a boolean value for a category of the record.
\<close>

theorem booleans_and_zero_accepted:
  "validate_positive_integer (PBool b) field_name = (True, None) \<and>
   validate_positive_integer (PInt 0) field_name = (True, None) \<and>
   (py_get data ''donation'' = Inr (PBool b) \<and> py_get data ''benefit_categories'' = Inr cats \<and>
    fst (validate_benefit_categories st cats) \<longrightarrow>
      fst (update_stats now data st) = (True, None) \<and>
      donation (snd (update_stats now data st)) = PBool b) \<and>
   (k \<in> set (map fst (benefit_categories st)) \<longrightarrow>
      update_stats now (PDict [(''benefit_categories'', PDict [(k, PBool b)])]) st =
        ((True, None),
         st\<lparr>benefit_categories := dict_set (benefit_categories st) k (PBool b),
            last_updated := now\<rparr>) \<and>
      dict_get (benefit_categories
          (snd (update_stats now (PDict [(''benefit_categories'', PDict [(k, PBool b)])]) st))) k =
        Some (PBool b))"
proof -
  have vb: "validate_positive_integer (PBool b) f = (True, None)" for f
    by (simp add: validate_positive_integer_def)
  have vz: "validate_positive_integer (PInt 0) field_name = (True, None)"
    by (simp add: validate_positive_integer_def)
  have don: "fst (update_stats now data st) = (True, None) \<and>
      donation (snd (update_stats now data st)) = PBool b"
    if "py_get data ''donation'' = Inr (PBool b)" "py_get data ''benefit_categories'' = Inr cats"
       "fst (validate_benefit_categories st cats)"
  proof -
    have "fst (validate_positive_integer (PBool b) ''donation'')" by (simp add: vb)
    from update_stats_valid[OF that(1,2) this that(3), of now] show ?thesis by simp
  qed
  have cat: "update_stats now (PDict [(''benefit_categories'', PDict [(k, PBool b)])]) st =
        ((True, None),
         st\<lparr>benefit_categories := dict_set (benefit_categories st) k (PBool b),
            last_updated := now\<rparr>) \<and>
      dict_get (benefit_categories
          (snd (update_stats now (PDict [(''benefit_categories'', PDict [(k, PBool b)])]) st))) k =
        Some (PBool b)"
    if "k \<in> set (map fst (benefit_categories st))"
  proof -
    let ?d = "PDict [(''benefit_categories'', PDict [(k, PBool b)])]"
    have g: "py_get ?d ''donation'' = Inr PNone"
      "py_get ?d ''benefit_categories'' = Inr (PDict [(k, PBool b)])"
      by (simp_all add: py_get_def)
    have v1: "fst (validate_positive_integer PNone ''donation'')"
      by (simp add: validate_positive_integer_def)
    have v2: "fst (validate_benefit_categories st (PDict [(k, PBool b)]))"
      using that by (simp add: validate_benefit_categories_def vb)
    from update_stats_valid[OF g v1 v2, of now] show ?thesis
      by (simp add: dict_get_dict_set)
  qed
  from vb vz don cat show ?thesis by blast
qed

text \<open>The statement at concrete inputs.\<close>

theorem booleans_and_zero_accepted_witness:
  "update_stats ''2026-01-02T00:00:00+00:00'' (PDict [(''donation'', PBool True)])
      (MOCK_LOVE_STATS ''2026-01-01T00:00:00+00:00'') =
     ((True, None),
      (MOCK_LOVE_STATS ''2026-01-02T00:00:00+00:00'')\<lparr>donation := PBool True\<rparr>) \<and>
   dict_get (benefit_categories (snd (update_stats ''2026-01-02T00:00:00+00:00''
      (PDict [(''benefit_categories'', PDict [(''allpass'', PBool False)])])
      (MOCK_LOVE_STATS ''2026-01-01T00:00:00+00:00'')))) ''allpass'' = Some (PBool False)"
proof -
  let ?st = "MOCK_LOVE_STATS ''2026-01-01T00:00:00+00:00''"
  let ?d = "PDict [(''donation'', PBool True)]"
  have g: "py_get ?d ''donation'' = Inr (PBool True) \<and> py_get ?d ''benefit_categories'' = Inr PNone \<and>
    fst (validate_benefit_categories ?st PNone)"
    by (simp add: py_get_def validate_benefit_categories_def)
  have k: "''allpass'' \<in> set (map fst (benefit_categories ?st))"
    by (simp add: MOCK_LOVE_STATS_def)
  from booleans_and_zero_accepted[of True "''donation''" ?d PNone ?st "''2026-01-02T00:00:00+00:00''" "''allpass''"] g
  have d1: "fst (update_stats ''2026-01-02T00:00:00+00:00'' ?d ?st) = (True, None)"
    and d2: "donation (snd (update_stats ''2026-01-02T00:00:00+00:00'' ?d ?st)) = PBool True"
    by blast+
  from booleans_and_zero_accepted[of False "''donation''" ?d PNone ?st "''2026-01-02T00:00:00+00:00''" "''allpass''"] k
  have c: "dict_get (benefit_categories (snd (update_stats ''2026-01-02T00:00:00+00:00''
      (PDict [(''benefit_categories'', PDict [(''allpass'', PBool False)])]) ?st))) ''allpass'' = Some (PBool False)"
    by blast
  have e: "update_stats ''2026-01-02T00:00:00+00:00'' ?d ?st =
     ((True, None), (MOCK_LOVE_STATS ''2026-01-02T00:00:00+00:00'')\<lparr>donation := PBool True\<rparr>)"
    by (simp add: update_stats_def update_stats_body_def py_get_def validate_positive_integer_def
        validate_benefit_categories_def MOCK_LOVE_STATS_def)
  from e c show ?thesis by blast
qed

text \<open>
  Claim C7.  On every record the service can reach from its seed,
  \<^verbatim>\<open>validate_benefit_categories\<close> accepts \<^verbatim>\<open>None\<close>; rejects whatever is neither \<^verbatim>\<open>None\<close> nor
  a dictionary with \<open>benefit_categories must be a dictionary\<close>; accepts a dictionary whose
  entries all have an allowed key and a value that is \<^verbatim>\<open>None\<close> or a non-negative
  \<^verbatim>\<open>int\<close> instance; and otherwise answers for the first entry that fails, whatever follows
  it: \<open>Unknown benefit category: key\<close> for a key outside the allowed set, else the answer
  of \<^verbatim>\<open>validate_positive_integer\<close>, \<open>Invalid value for key: must be a positive integer\<close>.
\<close>

theorem validate_benefit_categories_results:
  fixes calls t0
  defines "st \<equiv> run_updates calls (MOCK_LOVE_STATS t0)"
  shows
  "validate_benefit_categories st PNone = (True, None) \<and>
   (cats \<noteq> PNone \<and> (\<forall>items. cats \<noteq> PDict items) \<longrightarrow>
      validate_benefit_categories st cats =
        (False, Some ''benefit_categories must be a dictionary'')) \<and>
   (list_all (\<lambda>kv. fst kv \<in> set allowed_categories \<and> (snd kv = PNone \<or> nonneg (snd kv))) ok \<longrightarrow>
      validate_benefit_categories st (PDict ok) = (True, None) \<and>
      (k \<notin> set allowed_categories \<longrightarrow>
         validate_benefit_categories st (PDict (ok @ (k, v) # rest)) =
           (False, Some (''Unknown benefit category: '' @ k))) \<and>
      (k \<in> set allowed_categories \<and> v \<noteq> PNone \<and> \<not> nonneg v \<longrightarrow>
         validate_benefit_categories st (PDict (ok @ (k, v) # rest)) =
           (False, Some (''Invalid value for '' @ k @ '': must be a positive integer'')) \<and>
         validate_benefit_categories st (PDict (ok @ (k, v) # rest)) =
           validate_positive_integer v k))"
proof -
  have keys: "map fst (benefit_categories st) = allowed_categories"
    unfolding st_def by (rule reachable_keys)
  have none: "validate_benefit_categories st PNone = (True, None)"
    by (simp add: validate_benefit_categories_def)
  have nodict: "validate_benefit_categories st cats =
        (False, Some ''benefit_categories must be a dictionary'')"
    if "cats \<noteq> PNone" "\<forall>items. cats \<noteq> PDict items"
    using that by (cases cats) (simp_all add: validate_benefit_categories_def)
  have dict: "validate_benefit_categories st (PDict items) = validate_items allowed_categories items"
    for items
    by (simp add: validate_benefit_categories_def keys)
  {
    assume okl: "list_all (\<lambda>kv. fst kv \<in> set allowed_categories \<and> (snd kv = PNone \<or> nonneg (snd kv))) ok"
    then have okv: "list_all (\<lambda>kv. fst kv \<in> set allowed_categories \<and>
         fst (validate_positive_integer (snd kv) (fst kv))) ok"
      by (simp add: vpi_valid_iff)
    from okl have "fst (validate_items allowed_categories ok)"
      by (auto simp: validate_items_valid_iff list_all_iff)
    then have all_ok: "validate_benefit_categories st (PDict ok) = (True, None)"
      by (simp add: dict validate_items_valid_result)
    have skip: "validate_benefit_categories st (PDict (ok @ (k, v) # rest)) =
        validate_items allowed_categories ((k, v) # rest)"
      by (simp only: dict validate_items_first_failure[OF okv])
    have unknown: "validate_benefit_categories st (PDict (ok @ (k, v) # rest)) =
           (False, Some (''Unknown benefit category: '' @ k))"
      if "k \<notin> set allowed_categories"
      using that by (simp add: skip validate_items_Cons del: validate_items.simps)
    have invalid: "validate_benefit_categories st (PDict (ok @ (k, v) # rest)) =
           (False, Some (''Invalid value for '' @ k @ '': must be a positive integer'')) \<and>
         validate_benefit_categories st (PDict (ok @ (k, v) # rest)) =
           validate_positive_integer v k"
      if "k \<in> set allowed_categories" "v \<noteq> PNone" "\<not> nonneg v"
    proof -
      from that(2,3) have nv: "\<not> fst (validate_positive_integer v k)"
        by (simp add: vpi_valid_iff)
      from vpi_invalid_msg[OF nv] that(1) nv show ?thesis
        by (simp add: skip validate_items_Cons del: validate_items.simps)
    qed
    note all_ok unknown invalid
  }
  with none nodict show ?thesis by blast
qed

text \<open>The statement at concrete inputs.\<close>

theorem validate_benefit_categories_results_witness:
  "validate_benefit_categories (MOCK_LOVE_STATS ''2026-01-01T00:00:00+00:00'')
      (PDict [(''allpass'', PInt 1), (''unknown_key'', PInt (- 5)), (''allpass'', PStr ''x'')]) =
     (False, Some ''Unknown benefit category: unknown_key'') \<and>
   validate_benefit_categories (MOCK_LOVE_STATS ''2026-01-01T00:00:00+00:00'')
      (PDict [(''allpass'', PInt 1), (''new_resident'', PInt (- 5)), (''unknown_key'', PInt 2)]) =
     (False, Some ''Invalid value for new_resident: must be a positive integer'') \<and>
   validate_benefit_categories (MOCK_LOVE_STATS ''2026-01-01T00:00:00+00:00'')
      (PList [PInt 1]) = (False, Some ''benefit_categories must be a dictionary'') \<and>
   validate_benefit_categories (MOCK_LOVE_STATS ''2026-01-01T00:00:00+00:00'')
      (PDict [(''allpass'', PInt 1)]) = (True, None)"
proof -
  have ok: "list_all (\<lambda>kv. fst kv \<in> set allowed_categories \<and> (snd kv = PNone \<or> nonneg (snd kv)))
      [(''allpass'', PInt 1)]"
    by (simp add: allowed_categories_def nonneg_def)
  have k1: "''unknown_key'' \<notin> set allowed_categories"
    and k2: "''new_resident'' \<in> set allowed_categories"
    by (simp_all add: allowed_categories_def)
  have n: "\<not> nonneg (PInt (- 5))" by (simp add: nonneg_def)
  have l: "PList [PInt 1] \<noteq> PNone \<and> (\<forall>items. PList [PInt 1] \<noteq> PDict items)" by simp
  have r: "run_updates [] (MOCK_LOVE_STATS ''2026-01-01T00:00:00+00:00'') =
      MOCK_LOVE_STATS ''2026-01-01T00:00:00+00:00''" by simp
  from validate_benefit_categories_results
         [of "[]" "''2026-01-01T00:00:00+00:00''" "PList [PInt 1]" "[(''allpass'', PInt 1)]"
             "''unknown_key''" "PInt (- 5)" "[(''allpass'', PStr ''x'')]"]
       validate_benefit_categories_results
         [of "[]" "''2026-01-01T00:00:00+00:00''" "PList [PInt 1]" "[(''allpass'', PInt 1)]"
             "''new_resident''" "PInt (- 5)" "[(''unknown_key'', PInt 2)]"]
       ok k1 k2 n l
  show ?thesis unfolding r by simp
qed

text \<open>
  Claim C3.  Starting from the seed record, after any sequence of \<^verbatim>\<open>update_stats\<close> calls
  (whatever their payloads and whether they succeed) \<open>donation\<close> and every category value
  are \<^verbatim>\<open>int\<close> instances that are \<open>\<ge> 0\<close>, and the category keys are exactly the fixed
  ones, in their order: no update adds or removes a key.
\<close>

theorem stats_invariants_preserved:
  "nonneg (donation (run_updates calls (MOCK_LOVE_STATS t0))) \<and>
   list_all (\<lambda>kv. nonneg (snd kv)) (benefit_categories (run_updates calls (MOCK_LOVE_STATS t0))) \<and>
   map fst (benefit_categories (run_updates calls (MOCK_LOVE_STATS t0))) = allowed_categories"
  using run_updates_inv[OF MOCK_inv, of calls t0] by (simp add: stats_inv_def)

text \<open>The statement at concrete inputs.\<close>

theorem stats_invariants_preserved_witness:
  "nonneg (donation (run_updates
      [(''2026-01-02T00:00:00+00:00'', PDict [(''donation'', PInt (- 1))]),
       (''2026-01-03T00:00:00+00:00'', PDict [(''benefit_categories'', PDict [(''allpass'', PInt 7)])])]
      (MOCK_LOVE_STATS ''2026-01-01T00:00:00+00:00''))) \<and>
   map fst (benefit_categories (run_updates
      [(''2026-01-02T00:00:00+00:00'', PDict [(''donation'', PInt (- 1))]),
       (''2026-01-03T00:00:00+00:00'', PDict [(''benefit_categories'', PDict [(''allpass'', PInt 7)])])]
      (MOCK_LOVE_STATS ''2026-01-01T00:00:00+00:00''))) = allowed_categories"
  using stats_invariants_preserved
    [of "[(''2026-01-02T00:00:00+00:00'', PDict [(''donation'', PInt (- 1))]),
          (''2026-01-03T00:00:00+00:00'', PDict [(''benefit_categories'', PDict [(''allpass'', PInt 7)])])]"
        "''2026-01-01T00:00:00+00:00''"]
  by blast

section \<open>Facts about the subtraction of doubles\<close>

lemma round_half_even_near:
  "\<bar>x - of_int n\<bar> < 1 / 2 \<Longrightarrow> round_half_even x = n"
proof -
  assume a: "\<bar>x - of_int n\<bar> < 1 / 2"
  show ?thesis
  proof (cases "of_int n \<le> x")
    case True
    with a have "\<lfloor>x\<rfloor> = n" by (simp add: floor_eq_iff)
    with a True show ?thesis by (simp add: round_half_even_def Let_def)
  next
    case False
    with a have f: "\<lfloor>x\<rfloor> = n - 1" by (simp add: floor_eq_iff)
    from a False have "1 / 2 < x - of_int (n - 1)" by simp
    with f show ?thesis by (simp add: round_half_even_def Let_def)
  qed
qed

lemma round_half_even_ge:
  "of_int n \<le> x \<Longrightarrow> n \<le> round_half_even x"
proof -
  assume "of_int n \<le> x"
  then have "n \<le> \<lfloor>x\<rfloor>" by (simp add: le_floor_iff)
  then show ?thesis by (simp add: round_half_even_def Let_def)
qed

lemma round_half_even_le:
  "x \<le> of_int n \<Longrightarrow> round_half_even x \<le> n"
proof -
  assume a: "x \<le> of_int n"
  show ?thesis
  proof (cases "x = of_int n")
    case True
    then show ?thesis by (simp add: round_half_even_def Let_def)
  next
    case False
    with a have "x < of_int n" by simp
    then have "\<lfloor>x\<rfloor> < n" by (simp add: floor_less_iff)
    then show ?thesis by (simp add: round_half_even_def Let_def)
  qed
qed

lemma binade_eq:
  fixes k :: nat
  assumes "2 ^ k \<le> \<bar>x\<bar>" "\<bar>x\<bar> < 2 * 2 ^ k"
  shows "binade x = int k"
proof -
  have "(0::real) < 2 ^ k" by simp
  with assms(1) have pos: "0 < \<bar>x\<bar>" by linarith
  have "\<lfloor>log 2 \<bar>x\<bar>\<rfloor> = int k"
    using assms pos by (simp add: floor_log_eq_powr_iff powr_add powr_realpow)
  then show ?thesis by (simp add: binade_def)
qed


text \<open>Rounding never takes a difference of 60 or more below 60.\<close>

lemma double_round_ge_60:
  assumes "60 \<le> x"
  shows "60 \<le> double_round x"
proof -
  from assms have pos: "0 < x" by simp
  define e where "e = \<lfloor>log 2 \<bar>x\<bar>\<rfloor>"
  have e: "2 powr of_int e \<le> x" "x < 2 powr (of_int e + 1)"
    using pos floor_log_eq_powr_iff[of "\<bar>x\<bar>" 2 e] by (simp_all add: e_def)
  have "(2::real) powr 5 \<le> x" using assms by simp
  then have "(5::real) \<le> log 2 x" using pos by (simp add: le_log_iff)
  then have e5: "5 \<le> e" using pos by (simp add: e_def le_floor_iff)
  then have b: "binade x = e" by (simp add: binade_def e_def)
  define u :: real where "u = 2 powr of_int (e - 52)"
  have upos: "0 < u" by (simp add: u_def)
  define y :: real where "y = u * of_int (round_half_even (x / u))"
  have dr: "double_round x = (if 2 ^ 1024 \<le> \<bar>y\<bar> then 2 ^ 1024 else y)"
    using pos by (simp add: double_round_def b u_def y_def Let_def)
  have "60 \<le> y"
  proof (cases "e = 5")
    case True
    then have u: "u = 1 / 2 ^ 47" by (simp add: u_def powr_minus_divide)
    have "of_int (60 * 2 ^ 47) \<le> x / u" using assms by (simp add: u)
    from round_half_even_ge[OF this] have "60 * 2 ^ 47 \<le> round_half_even (x / u)" .
    then have "(60::real) * 2 ^ 47 \<le> of_int (round_half_even (x / u))"
      by (metis of_int_le_iff of_int_mult of_int_numeral of_int_power)
    then show ?thesis by (simp add: y_def u field_simps)
  next
    case False
    with e5 have e6: "6 \<le> e" by simp
    have "2 powr of_int e / u = 2 powr 52"
      by (simp add: u_def flip: powr_diff)
    then have "of_int (2 ^ 52) \<le> x / u"
      using e(1) upos by (simp add: field_simps)
    from round_half_even_ge[OF this] have "2 ^ 52 \<le> round_half_even (x / u)" .
    then have "(2::real) ^ 52 \<le> of_int (round_half_even (x / u))"
      by (metis of_int_le_iff of_int_numeral of_int_power)
    then have "u * 2 ^ 52 \<le> y" using upos by (simp add: y_def)
    moreover have "u * 2 ^ 52 = 2 powr of_int e"
      by (simp add: u_def powr_diff)
    moreover have "(2::real) powr 6 \<le> 2 powr of_int e"
      by (rule powr_mono) (use e6 in simp_all)
    moreover have "(2::real) powr 6 = 64" by simp
    ultimately show ?thesis by linarith
  qed
  then show ?thesis by (simp add: dr)
qed

lemma float_sub_less_60: "float_sub a b < 60 \<Longrightarrow> a - b < 60"
  using double_round_ge_60[of "a - b"] by (fastforce simp: float_sub_def)


text \<open>Rounding a number whose exponent is known, away from overflow.\<close>

lemma double_round_binade:
  fixes k :: nat and x :: real
  assumes "2 ^ k \<le> \<bar>x\<bar>" "\<bar>x\<bar> < 2 * 2 ^ k" "k < 1023"
  shows "double_round x = 2 ^ k / 2 ^ 52 * of_int (round_half_even (x * 2 ^ 52 / 2 ^ k))"
proof -
  have "(0::real) < 2 ^ k" by simp
  with assms(1) have nz: "x \<noteq> 0" by linarith
  define u :: real where "u = 2 ^ k / 2 ^ 52"
  have upos: "0 < u" by (simp add: u_def)
  have u: "2 powr of_int (int k - 52) = u"
    by (simp add: u_def powr_diff powr_realpow)
  define m where "m = round_half_even (x / u)"
  have "x / u \<le> of_int (2 ^ 53)" "of_int (- (2 ^ 53)) \<le> x / u"
    using assms(1,2) by (simp_all add: u_def field_simps abs_if split: if_splits)
  then have "m \<le> 2 ^ 53" "- (2 ^ 53) \<le> m"
    unfolding m_def by (simp_all only: round_half_even_le round_half_even_ge)
  then have "\<bar>m\<bar> \<le> 2 ^ 53" by simp
  then have "\<bar>real_of_int m\<bar> \<le> 2 ^ 53"
    by (metis of_int_abs of_int_le_iff of_int_numeral of_int_power)
  then have "\<bar>u * of_int m\<bar> \<le> u * 2 ^ 53"
    using upos by (simp add: abs_mult)
  also have "u * 2 ^ 53 = 2 * 2 ^ k" by (simp add: u_def)
  also have "\<dots> = (2::real) ^ Suc k" by simp
  also have "\<dots> \<le> 2 ^ 1023" using assms(3) by (intro power_increasing) simp_all
  also have "\<dots> < (2::real) ^ 1024" by (intro power_strict_increasing) simp_all
  finally have small: "\<not> 2 ^ 1024 \<le> \<bar>u * of_int m\<bar>" by simp
  have xu: "x / u = x * 2 ^ 52 / 2 ^ k" by (simp add: u_def)
  show ?thesis
    using nz small
    by (simp only: double_round_def binade_eq[OF assms(1,2)] Let_def u m_def[symmetric] if_False)
       (simp add: m_def xu u_def)
qed

lemma double_round_30: "double_round 30 = 30"
proof -
  have r: "round_half_even (30 * 2 ^ 52 / 2 ^ 4) = 30 * 2 ^ 48"
    by (rule round_half_even_near) simp
  show ?thesis
    by (subst double_round_binade[of 4]) (simp_all only: r, simp_all)
qed


section \<open>Facts about the rate limiter\<close>


lemma is_allowed_window:
  "window (snd (is_allowed t ip rc)) ip =
     (if length (filter (\<lambda>r. float_sub t r < RATE_LIMIT_WINDOW) (window rc ip)) \<ge> RATE_LIMIT_MAX
      then filter (\<lambda>r. float_sub t r < RATE_LIMIT_WINDOW) (window rc ip)
      else filter (\<lambda>r. float_sub t r < RATE_LIMIT_WINDOW) (window rc ip) @ [t])"
  by (auto simp: is_allowed_def window_def Let_def)

lemma is_allowed_other:
  "ip' \<noteq> ip \<Longrightarrow> window (snd (is_allowed t ip rc)) ip' = window rc ip'"
  by (auto simp: is_allowed_def window_def Let_def)

lemma serve_Cons:
  "serve ((t, ip) # reqs) rc =
     (fst (is_allowed t ip rc) # fst (serve reqs (snd (is_allowed t ip rc))),
      snd (serve reqs (snd (is_allowed t ip rc))))"
  by (simp split: prod.splits)



lemma is_allowed_bounded:
  "length (window (snd (is_allowed t ip rc)) ip') \<le> max RATE_LIMIT_MAX (length (window rc ip'))"
proof (cases "ip' = ip")
  case False
  then show ?thesis by (simp add: is_allowed_other)
next
  case True
  have "length (filter (\<lambda>r. float_sub t r < RATE_LIMIT_WINDOW) (window rc ip)) \<le> length (window rc ip)"
    by (rule length_filter_le)
  then have "length (filter (\<lambda>r. float_sub t r < RATE_LIMIT_WINDOW) (window rc ip))
        \<le> max RATE_LIMIT_MAX (length (window rc ip))"
    and "\<not> RATE_LIMIT_MAX \<le> length (filter (\<lambda>r. float_sub t r < RATE_LIMIT_WINDOW) (window rc ip)) \<Longrightarrow>
      Suc (length (filter (\<lambda>r. float_sub t r < RATE_LIMIT_WINDOW) (window rc ip)))
        \<le> max RATE_LIMIT_MAX (length (window rc ip))"
    by arith+
  then show ?thesis unfolding True is_allowed_window by simp
qed

lemma serve_bounded:
  "(\<And>i. length (window rc i) \<le> RATE_LIMIT_MAX) \<Longrightarrow>
   length (window (snd (serve reqs rc)) i) \<le> RATE_LIMIT_MAX"
proof (induction reqs arbitrary: rc i)
  case Nil
  then show ?case by simp
next
  case (Cons req reqs)
  obtain t ip where req: "req = (t, ip)" by (cases req)
  have "length (window (snd (is_allowed t ip rc)) j) \<le> RATE_LIMIT_MAX" for j
    using is_allowed_bounded[of t ip rc j] Cons.prems[of j] by simp
  from Cons.IH[OF this] show ?case by (simp add: req serve_Cons del: serve.simps)
qed









section \<open>Facts about the store\<close>

lemma vals_of_Vals: "vals_of (map (\<lambda>kv. (fst kv, Val (snd kv))) items) = Some items"
  by (induction items) auto

lemma stored_record_heap_of: "stored_record (heap_of st) = Some st"
  by (simp add: stored_record_def heap_of_def heap_lookup_def MOCK_LOVE_STATS_addr_def vals_of_Vals)

lemma stored_recordD:
  assumes "stored_record h = Some st"
  shows "\<exists>b. 0 < length h \<and> b < length h \<and>
           dict_get (h ! 0) ''donation'' = Some (Val (donation st)) \<and>
           dict_get (h ! 0) ''benefit_categories'' = Some (Ref b) \<and>
           dict_get (h ! 0) ''last_updated'' = Some (Val (PStr (last_updated st))) \<and>
           vals_of (h ! b) = Some (benefit_categories st)"
  using assms
  by (auto simp: stored_record_def heap_lookup_def MOCK_LOVE_STATS_addr_def
      split: option.splits cell.splits pyval.splits if_splits)

lemma stored_record_extend:
  assumes "stored_record h = Some st"
  shows "stored_record (h @ [ob]) = Some st"
proof -
  from stored_recordD[OF assms] obtain b where b: "0 < length h" "b < length h"
    "dict_get (h ! 0) ''donation'' = Some (Val (donation st))"
    "dict_get (h ! 0) ''benefit_categories'' = Some (Ref b)"
    "dict_get (h ! 0) ''last_updated'' = Some (Val (PStr (last_updated st)))"
    "vals_of (h ! b) = Some (benefit_categories st)" by blast
  then show ?thesis
    by (simp add: stored_record_def heap_lookup_def MOCK_LOVE_STATS_addr_def nth_append)
qed

lemma get_current_stats_result:
  assumes "stored_record h = Some st"
  shows "get_current_stats now h =
     Some (length h, h @ [dict_set (h ! 0) ''updatedAt'' (Val (PStr (last_updated st)))])"
proof -
  from stored_recordD[OF assms] obtain b where b: "0 < length h"
    "dict_get (h ! 0) ''last_updated'' = Some (Val (PStr (last_updated st)))" by blast
  then show ?thesis
    by (simp add: get_current_stats_def dict_copy_def setitem_def heap_lookup_def
        MOCK_LOVE_STATS_addr_def nth_append)
qed

lemma dict_get_dict_set_cell:
  "dict_get (dict_set ob k c) k' = (if k' = k then Some c else dict_get ob k')"
  by (induction ob) auto

section \<open>Properties of the rate limiter\<close>




text \<open>
  Claim C4.  When a call of \<^verbatim>\<open>is_allowed\<close> for an address returns, every reading in that
  address's window is later than the current reading minus the 60-second window.
\<close>

theorem window_holds_no_expired_timestamp:
  "\<forall>req_time \<in> set (window (snd (is_allowed now ip rc)) ip). now - RATE_LIMIT_WINDOW < req_time"
proof
  fix req_time
  assume "req_time \<in> set (window (snd (is_allowed now ip rc)) ip)"
  then have "req_time = now \<or> float_sub now req_time < RATE_LIMIT_WINDOW"
    by (auto simp: is_allowed_window split: if_splits)
  then show "now - RATE_LIMIT_WINDOW < req_time"
    using float_sub_less_60[of now req_time] by (auto simp: RATE_LIMIT_WINDOW_def)
qed

text \<open>The statement at concrete inputs.\<close>

theorem window_holds_no_expired_timestamp_witness:
  "window (snd (is_allowed 100 ''10.0.0.1'' [''10.0.0.1'' \<mapsto> [30, 40, 70]])) ''10.0.0.1'' = [70, 100] \<and>
   (100::real) - RATE_LIMIT_WINDOW < 70"
proof -
  have i: "window [''10.0.0.1'' \<mapsto> [30, 40, 70]] ''10.0.0.1'' = [30, 40, 70]"
    by (simp add: window_def)
  have a: "\<not> float_sub 100 30 < 60" "\<not> float_sub 100 40 < 60"
    using float_sub_less_60[of 100 30] float_sub_less_60[of 100 40] by auto
  have b: "float_sub 100 70 < 60"
    by (simp add: float_sub_def double_round_30)
  have w: "window (snd (is_allowed 100 ''10.0.0.1'' [''10.0.0.1'' \<mapsto> [30, 40, 70]])) ''10.0.0.1'' = [70, 100]"
    by (simp add: is_allowed_window i a b RATE_LIMIT_WINDOW_def RATE_LIMIT_MAX_def)
  from window_holds_no_expired_timestamp[of 100 "''10.0.0.1''" "[''10.0.0.1'' \<mapsto> [30, 40, 70]]"]
  have "(100::real) - RATE_LIMIT_WINDOW < 70" unfolding w by simp
  with w show ?thesis by blast
qed

text \<open>
  Claim C8.  A call of \<^verbatim>\<open>is_allowed\<close> leaves no window longer than the larger of 100
  and its length before the call; so, from a new limiter, after any sequence of calls
  every address's window holds at most 100 readings.
\<close>

theorem window_never_exceeds_maximum:
  "length (window (snd (is_allowed now ip rc)) ip') \<le> max RATE_LIMIT_MAX (length (window rc ip')) \<and>
   length (window (snd (serve reqs new_limiter)) ip') \<le> RATE_LIMIT_MAX \<and>
   RATE_LIMIT_MAX = 100"
proof -
  have "length (window new_limiter i) \<le> RATE_LIMIT_MAX" for i
    by (simp add: window_def new_limiter_def)
  from serve_bounded[OF this] is_allowed_bounded show ?thesis
    by (simp add: RATE_LIMIT_MAX_def)
qed

text \<open>The statement at concrete inputs.\<close>

theorem window_never_exceeds_maximum_witness:
  "length (window (snd (serve (replicate 101 (1000, ''10.0.0.1'')) new_limiter)) ''10.0.0.1'') \<le> 100"
  using window_never_exceeds_maximum[of 0 "''10.0.0.1''" new_limiter "''10.0.0.1''" "replicate 101 (1000, ''10.0.0.1'')"]
  by simp

section \<open>Properties of \<^verbatim>\<open>get_current_stats\<close>\<close>

text \<open>
  Claim C5, as the code has it.  On a store that holds the record, \<^verbatim>\<open>get_current_stats\<close>
  succeeds and returns a new dictionary; the objects there before are untouched and so is
  the stored record.  The new dictionary has the record's \<open>donation\<close> and \<open>last_updated\<close>,
  the latter also under \<open>updatedAt\<close>, and in its \<open>benefit_categories\<close> slot the very
  reference the stored record has.  Whatever the caller then does to the new dictionary
  itself, the stored record does not change.
\<close>

theorem get_current_stats_shallow_copy:
  assumes "stored_record h = Some st"
  shows "\<exists>r h'. get_current_stats now h = Some (r, h') \<and>
           r = length h \<and> take (length h) h' = h \<and> length h' = Suc (length h) \<and>
           stored_record h' = Some st \<and>
           dict_get (h' ! r) ''donation'' = Some (Val (donation st)) \<and>
           dict_get (h' ! r) ''benefit_categories'' =
             dict_get (h ! MOCK_LOVE_STATS_addr) ''benefit_categories'' \<and>
           dict_get (h' ! r) ''last_updated'' = Some (Val (PStr (last_updated st))) \<and>
           dict_get (h' ! r) ''updatedAt'' = Some (Val (PStr (last_updated st))) \<and>
           (\<forall>ob. stored_record (h'[r := ob]) = Some st) \<and>
           (\<forall>k c. map_option stored_record (setitem r k c h') = Some (Some st))"
proof -
  let ?ob = "dict_set (h ! 0) ''updatedAt'' (Val (PStr (last_updated st)))"
  let ?h = "h @ [?ob]"
  note g = get_current_stats_result[OF assms, of now]
  from stored_recordD[OF assms] obtain b where b: "0 < length h" "b < length h"
    "dict_get (h ! 0) ''donation'' = Some (Val (donation st))"
    "dict_get (h ! 0) ''benefit_categories'' = Some (Ref b)"
    "dict_get (h ! 0) ''last_updated'' = Some (Val (PStr (last_updated st)))"
    "vals_of (h ! b) = Some (benefit_categories st)" by blast
  have upd: "?h[length h := ob] = h @ [ob]" for ob by simp
  have s1: "stored_record ?h = Some st" by (rule stored_record_extend[OF assms])
  have s2: "stored_record (?h[length h := ob]) = Some st" for ob
    unfolding upd by (rule stored_record_extend[OF assms])
  have s3: "map_option stored_record (setitem (length h) k c ?h) = Some (Some st)" for k c
    using s2 by (simp add: setitem_def heap_lookup_def)
  have fields: "dict_get (?h ! length h) ''donation'' = Some (Val (donation st))"
    "dict_get (?h ! length h) ''benefit_categories'' =
             dict_get (h ! MOCK_LOVE_STATS_addr) ''benefit_categories''"
    "dict_get (?h ! length h) ''last_updated'' = Some (Val (PStr (last_updated st)))"
    "dict_get (?h ! length h) ''updatedAt'' = Some (Val (PStr (last_updated st)))"
    using b by (simp_all add: dict_get_dict_set_cell MOCK_LOVE_STATS_addr_def)
  have "take (length h) ?h = h" "length ?h = Suc (length h)" by simp_all
  with g s1 s2 s3 fields show ?thesis by blast
qed

text \<open>The statement at concrete inputs.\<close>

theorem get_current_stats_shallow_copy_witness:
  "get_current_stats ''2026-01-02T00:00:00+00:00'' (heap_of (MOCK_LOVE_STATS ''2026-01-01T00:00:00+00:00'')) =
     Some (2, heap_of (MOCK_LOVE_STATS ''2026-01-01T00:00:00+00:00'') @
              [[(''donation'', Val (PInt 714649)), (''benefit_categories'', Ref 1),
                (''last_updated'', Val (PStr ''2026-01-01T00:00:00+00:00'')),
                (''updatedAt'', Val (PStr ''2026-01-01T00:00:00+00:00''))]]) \<and>
   map_option stored_record
     (setitem 2 ''donation'' (Val (PInt 0))
        (heap_of (MOCK_LOVE_STATS ''2026-01-01T00:00:00+00:00'') @
              [[(''donation'', Val (PInt 714649)), (''benefit_categories'', Ref 1),
                (''last_updated'', Val (PStr ''2026-01-01T00:00:00+00:00'')),
                (''updatedAt'', Val (PStr ''2026-01-01T00:00:00+00:00''))]])) =
     Some (Some (MOCK_LOVE_STATS ''2026-01-01T00:00:00+00:00''))"
proof -
  let ?st = "MOCK_LOVE_STATS ''2026-01-01T00:00:00+00:00''"
  have s: "stored_record (heap_of ?st) = Some ?st" by (rule stored_record_heap_of)
  from get_current_stats_shallow_copy[OF s, of "''2026-01-02T00:00:00+00:00''"]
  obtain r h' where r: "get_current_stats ''2026-01-02T00:00:00+00:00'' (heap_of ?st) = Some (r, h')"
    and m: "\<forall>k c. map_option stored_record (setitem r k c h') = Some (Some ?st)"
    by blast
  have e: "get_current_stats ''2026-01-02T00:00:00+00:00'' (heap_of ?st) =
     Some (2, heap_of ?st @
              [[(''donation'', Val (PInt 714649)), (''benefit_categories'', Ref 1),
                (''last_updated'', Val (PStr ''2026-01-01T00:00:00+00:00'')),
                (''updatedAt'', Val (PStr ''2026-01-01T00:00:00+00:00''))]])"
    by (simp add: get_current_stats_def dict_copy_def setitem_def heap_lookup_def
        MOCK_LOVE_STATS_addr_def heap_of_def MOCK_LOVE_STATS_def)
  from r e m show ?thesis by simp
qed

text \<open>
  The copy is shallow: the category dictionary reached through the result is the stored
  one, and writing to it changes the stored record.
\<close>

theorem get_current_stats_shares_categories:
  "get_current_stats ''2026-01-02T00:00:00+00:00'' (heap_of (MOCK_LOVE_STATS ''2026-01-01T00:00:00+00:00'')) =
     Some (2, heap_of (MOCK_LOVE_STATS ''2026-01-01T00:00:00+00:00'') @
              [[(''donation'', Val (PInt 714649)), (''benefit_categories'', Ref 1),
                (''last_updated'', Val (PStr ''2026-01-01T00:00:00+00:00'')),
                (''updatedAt'', Val (PStr ''2026-01-01T00:00:00+00:00''))]]) \<and>
   stored_record
     (heap_of (MOCK_LOVE_STATS ''2026-01-01T00:00:00+00:00'') @
              [[(''donation'', Val (PInt 714649)), (''benefit_categories'', Ref 1),
                (''last_updated'', Val (PStr ''2026-01-01T00:00:00+00:00'')),
                (''updatedAt'', Val (PStr ''2026-01-01T00:00:00+00:00''))]]) =
     Some (MOCK_LOVE_STATS ''2026-01-01T00:00:00+00:00'') \<and>
   map_option stored_record
     (setitem 1 ''allpass'' (Val (PInt 0))
        (heap_of (MOCK_LOVE_STATS ''2026-01-01T00:00:00+00:00'') @
              [[(''donation'', Val (PInt 714649)), (''benefit_categories'', Ref 1),
                (''last_updated'', Val (PStr ''2026-01-01T00:00:00+00:00'')),
                (''updatedAt'', Val (PStr ''2026-01-01T00:00:00+00:00''))]])) =
     Some (Some ((MOCK_LOVE_STATS ''2026-01-01T00:00:00+00:00'')
       \<lparr>benefit_categories :=
          dict_set (benefit_categories (MOCK_LOVE_STATS ''2026-01-01T00:00:00+00:00''))
            ''allpass'' (PInt 0)\<rparr>)) \<and>
   (MOCK_LOVE_STATS ''2026-01-01T00:00:00+00:00'')
       \<lparr>benefit_categories :=
          dict_set (benefit_categories (MOCK_LOVE_STATS ''2026-01-01T00:00:00+00:00''))
            ''allpass'' (PInt 0)\<rparr> \<noteq> MOCK_LOVE_STATS ''2026-01-01T00:00:00+00:00''"
  by (simp add: get_current_stats_def dict_copy_def setitem_def heap_lookup_def
        MOCK_LOVE_STATS_addr_def heap_of_def MOCK_LOVE_STATS_def stored_record_def)

end
